theory Spec2Isabelle
  imports
    Complex_Main
    "HOL-Library.Sublist"
    "HOL-Library.Char_ord"
    "HOL-Library.List_Lexorder"
begin

section \<open>Go values used by the provider\<close>

text \<open>
  A \<^verbatim>\<open>float64\<close> is a finite value or one of the three special values. Every finite
  \<^verbatim>\<open>float64\<close> is a rational number, so the finite ones are carried as \<^typ>\<open>rat\<close>;
  the two zeros are both \<open>Finite 0\<close> (they compare equal and neither is \<^verbatim>\<open>> 0.0\<close>).
\<close>

datatype float64 = Finite rat | PosInf | NegInf | NaN

text \<open>The comparison \<^verbatim>\<open>x > 0.0\<close>: false for NaN, as every comparison with NaN is.\<close>

fun float64_gt_zero :: "float64 \<Rightarrow> bool" where
  "float64_gt_zero (Finite q) = (0 < q)"
| "float64_gt_zero PosInf = True"
| "float64_gt_zero NegInf = False"
| "float64_gt_zero NaN = False"

text \<open>
  A value of type \<^verbatim>\<open>interface{}\<close>, by its dynamic type: \<^verbatim>\<open>nil\<close>, a string, a
  \<^verbatim>\<open>float64\<close>, a bool, a slice, or a map with string keys (\<^verbatim>\<open>map[string]interface{}\<close>
  and \<^verbatim>\<open>map[string]string\<close> alike). A Go map has no order of its own; it is kept as an
  association list and whatever reads it (the JSON encoder) imposes its own order.
\<close>

datatype iface =
    INil
  | IString string
  | IFloat float64
  | IBool bool
  | ISlice "iface list"
  | IMap "(string \<times> iface) list"

text \<open>Go errors, and the two run-time panics the handlers can raise.\<close>

datatype error =
    UnsupportedValueError
  | InvalidUnmarshalError
  | UnmarshalTypeError
  | SyntaxError
  | ErrorString string

datatype panic =
    InterfaceConversion string
  | NilPointerDereference

fun error_Error :: "error \<Rightarrow> string" where
  "error_Error UnsupportedValueError = ''json: unsupported value''"
| "error_Error InvalidUnmarshalError = ''json: Unmarshal(non-pointer)''"
| "error_Error UnmarshalTypeError = ''json: cannot unmarshal''"
| "error_Error SyntaxError = ''unexpected end of JSON input''"
| "error_Error (ErrorString s) = s"

subsection \<open>Formatting\<close>

text \<open>\<^verbatim>\<open>%d\<close> of a non-negative number, and of an int.\<close>

fun fmt_nat :: "nat \<Rightarrow> string" where
  "fmt_nat n =
     (if n < 10 then [''0123456789'' ! n]
      else fmt_nat (n div 10) @ [''0123456789'' ! (n mod 10)])"

definition fmt_d :: "int \<Rightarrow> string" where
  "fmt_d i = (if i < 0 then ''-'' @ fmt_nat (nat (- i)) else fmt_nat (nat i))"

text \<open>Elements separated by a separator, as \<^verbatim>\<open>strings.Join\<close> does.\<close>

fun join :: "string \<Rightarrow> string list \<Rightarrow> string" where
  "join sep [] = []"
| "join sep [x] = x"
| "join sep (x # y # ys) = x @ sep @ join sep (y # ys)"

text \<open>\<^verbatim>\<open>%v\<close> of a slice of strings: the elements between brackets, separated by spaces.\<close>

definition fmt_v :: "string list \<Rightarrow> string" where
  "fmt_v xs = ''['' @ join '' '' xs @ '']''"

subsection \<open>Diagnostics\<close>

datatype Severity = Error | Warning

record Diagnostic =
  Severity :: Severity
  Summary :: string

type_synonym Diagnostics = "Diagnostic list"

text \<open>\<^verbatim>\<open>diag.FromErr(err)\<close> and \<^verbatim>\<open>diag.Errorf(format, code)\<close> with the one format the
  handlers use.\<close>

definition diag_FromErr :: "error \<Rightarrow> Diagnostics" where
  "diag_FromErr err = [\<lparr>Severity = Error, Summary = error_Error err\<rparr>]"

definition diag_Errorf :: "int \<Rightarrow> Diagnostics" where
  "diag_Errorf code =
     [\<lparr>Severity = Error,
       Summary = ''API request to create team membership has failed with status code '' @ fmt_d code\<rparr>]"

section \<open>The declared state and the schema\<close>

text \<open>
  \<^verbatim>\<open>schema.ResourceData\<close> belongs to the plugin SDK. It is taken as a store of
  \<^verbatim>\<open>interface{}\<close> values by key: \<^verbatim>\<open>d.Get(key)\<close> reads it (\<^verbatim>\<open>nil\<close> is \<open>INil\<close>),
  \<^verbatim>\<open>d.Set(key, v)\<close> writes it. The handlers ignore what \<^verbatim>\<open>d.Set\<close> returns.
\<close>

record ResourceData =
  store :: "string \<Rightarrow> iface"

definition Get :: "ResourceData \<Rightarrow> string \<Rightarrow> iface" where
  "Get d key = store d key"

definition Set :: "ResourceData \<Rightarrow> string \<Rightarrow> iface \<Rightarrow> ResourceData" where
  "Set d key v = d\<lparr>store := (store d)(key := v)\<rparr>"

datatype ValueType = TypeString | TypeFloat

record Schema =
  Type :: ValueType
  Required :: bool
  Description :: string

text \<open>The three declared fields; \<^verbatim>\<open>max_budget_in_team\<close> is commented out in the source.\<close>

definition SchemaTeamMembership :: "(string \<times> Schema) list" where
  "SchemaTeamMembership =
     [(''team_id'', \<lparr>Type = TypeString, Required = True, Description = ''Team ID''\<rparr>),
      (''user_id'', \<lparr>Type = TypeString, Required = True, Description = ''User ID''\<rparr>),
      (''role'', \<lparr>Type = TypeString, Required = True, Description = ''Litellm Role''\<rparr>)]"

subsection \<open>Type assertions\<close>

text \<open>\<^verbatim>\<open>v.(string)\<close> and \<^verbatim>\<open>v.(float64)\<close> in their one-result form: a panic when the
  dynamic type is another one.\<close>

fun assertString :: "iface \<Rightarrow> panic + string" where
  "assertString (IString s) = Inr s"
| "assertString v = Inl (InterfaceConversion ''string'')"

fun assertFloat64 :: "iface \<Rightarrow> panic + float64" where
  "assertFloat64 (IFloat f) = Inr f"
| "assertFloat64 v = Inl (InterfaceConversion ''float64'')"

fun isString :: "iface \<Rightarrow> bool" where
  "isString (IString s) = True"
| "isString v = False"

fun isFloat64 :: "iface \<Rightarrow> bool" where
  "isFloat64 (IFloat f) = True"
| "isFloat64 v = False"

subsection \<open>Extraction of the declared fields\<close>

record TeamMembershipData =
  UserId :: string
  Role :: string
  TeamId :: string
  MaxBudgetInTeam :: float64

definition getTeamMembershipData :: "ResourceData \<Rightarrow> panic + TeamMembershipData" where
  "getTeamMembershipData d =
     (case assertString (Get d ''user_id'') of
        Inl p \<Rightarrow> Inl p
      | Inr userId \<Rightarrow>
     (case assertString (Get d ''role'') of
        Inl p \<Rightarrow> Inl p
      | Inr role \<Rightarrow>
     (case assertString (Get d ''team_id'') of
        Inl p \<Rightarrow> Inl p
      | Inr teamId \<Rightarrow>
     (case assertFloat64 (Get d ''max_budget_in_team'') of
        Inl p \<Rightarrow> Inl p
      | Inr maxBudgetInTeam \<Rightarrow>
          Inr \<lparr>UserId = userId, Role = role, TeamId = teamId,
               MaxBudgetInTeam = maxBudgetInTeam\<rparr>))))"

section \<open>JSON encoding\<close>

text \<open>
  The two scalar encoders of \<^verbatim>\<open>encoding/json\<close> (a quoted, escaped string; the shortest
  decimal text of a finite \<^verbatim>\<open>float64\<close>) and the network behind
  \<^verbatim>\<open>http.DefaultClient.Do\<close> are the Go runtime's. They are parameters of the handlers,
  gathered in one record. \<^verbatim>\<open>Do\<close> returns a response pointer and an error, either of
  which may be \<^verbatim>\<open>nil\<close>.
\<close>

record Response =
  StatusCode :: int
  Body :: "iface option"

record 'req Runtime =
  encodeString :: "string \<Rightarrow> string"
  encodeFloat :: "rat \<Rightarrow> string"
  Do :: "'req \<Rightarrow> Response option \<times> error option"

text \<open>
  The encoder: \<^verbatim>\<open>null\<close> for \<^verbatim>\<open>nil\<close>, no encoding for an infinite or NaN number
  (\<^verbatim>\<open>UnsupportedValueError\<close>), the entries of a map sorted by key.
\<close>

fun json_encode :: "('req, 'x) Runtime_scheme \<Rightarrow> iface \<Rightarrow> string option" where
  "json_encode rt INil = Some ''null''"
| "json_encode rt (IString s) = Some (encodeString rt s)"
| "json_encode rt (IFloat f) =
     (case f of Finite q \<Rightarrow> Some (encodeFloat rt q) | _ \<Rightarrow> None)"
| "json_encode rt (IBool b) = Some (if b then ''true'' else ''false'')"
| "json_encode rt (ISlice xs) =
     map_option (\<lambda>ss. ''['' @ join '','' ss @ '']'')
       (those (map (json_encode rt) xs))"
| "json_encode rt (IMap kvs) =
     map_option (\<lambda>ss. ''{'' @ join '','' ss @ ''}'')
       (those (map (\<lambda>(k, e). map_option (\<lambda>s. encodeString rt k @ '':'' @ s) e)
          (sort_key fst (map (\<lambda>(k, v). (k, json_encode rt v)) kvs))))"

text \<open>\<^verbatim>\<open>json.Marshal\<close>: the bytes and a \<^verbatim>\<open>nil\<close> error, or \<^verbatim>\<open>nil\<close> bytes and the error.\<close>

definition json_Marshal :: "('req, 'x) Runtime_scheme \<Rightarrow> iface \<Rightarrow> string \<times> error option" where
  "json_Marshal rt v =
     (case json_encode rt v of
        Some bs \<Rightarrow> (bs, None)
      | None \<Rightarrow> ([], Some UnsupportedValueError))"

text \<open>
  \<^verbatim>\<open>json.Unmarshal(data, v)\<close> where \<^verbatim>\<open>v\<close> is passed by value (not a pointer): the
  call returns an error (a syntax error for empty input, \<^verbatim>\<open>InvalidUnmarshalError\<close>
  otherwise) and the caller's variable keeps its value.
\<close>

definition json_Unmarshal_by_value :: "string \<Rightarrow> 'a \<Rightarrow> 'a \<times> error option" where
  "json_Unmarshal_by_value data v =
     (v, Some (if data = [] then SyntaxError else InvalidUnmarshalError))"

text \<open>
  \<^verbatim>\<open>json.NewDecoder(resp.Body).Decode(&respJsonBody)\<close> into a
  \<^verbatim>\<open>map[string]interface{}\<close>. The body is given by the JSON value its bytes denote
  (\<open>None\<close> when they are not JSON). An object fills the map; \<^verbatim>\<open>null\<close> leaves it
  \<^verbatim>\<open>nil\<close> without an error; anything else leaves it \<^verbatim>\<open>nil\<close> with an error. A
  \<^verbatim>\<open>nil\<close> map reads as an empty one.
\<close>

fun Decode_map :: "iface option \<Rightarrow> (string \<times> iface) list \<times> error option" where
  "Decode_map None = ([], Some SyntaxError)"
| "Decode_map (Some (IMap kvs)) = (kvs, None)"
| "Decode_map (Some INil) = ([], None)"
| "Decode_map (Some v) = ([], Some UnmarshalTypeError)"

text \<open>\<^verbatim>\<open>m[key]\<close> on a \<^verbatim>\<open>map[string]interface{}\<close>: \<^verbatim>\<open>nil\<close> for a missing key.\<close>

definition index_map :: "(string \<times> iface) list \<Rightarrow> string \<Rightarrow> iface" where
  "index_map m key = (case map_of m key of None \<Rightarrow> INil | Some v \<Rightarrow> v)"

section \<open>The API client and the handlers' results\<close>

text \<open>
  \<^verbatim>\<open>LitellmClient\<close> is declared in a file of the provider that is not among the
  sources read here; the handlers use its field \<^verbatim>\<open>ApiBaseURL\<close> and its method
  \<^verbatim>\<open>NewRequest(method, url, body)\<close>, which returns a request pointer and an error.
  The method is a parameter: any function of its three arguments (the body is
  \<open>None\<close> for a \<^verbatim>\<open>nil\<close> reader).
\<close>

record 'req LitellmClient =
  ApiBaseURL :: string
  NewRequest :: "string \<Rightarrow> string \<Rightarrow> string option \<Rightarrow> 'req option \<times> error option"

text \<open>
  The handle \<^verbatim>\<open>m interface{}\<close> the SDK passes to every handler: a
  \<^verbatim>\<open>*LitellmClient\<close> (possibly a \<^verbatim>\<open>nil\<close> one) or a value of another type.
  \<^verbatim>\<open>m.(*LitellmClient)\<close> panics on the latter.
\<close>

datatype 'req meta = ClientPtr "'req LitellmClient option" | OtherMeta

fun assertClient :: "'req meta \<Rightarrow> panic + 'req LitellmClient option" where
  "assertClient (ClientPtr c) = Inr c"
| "assertClient OtherMeta = Inl (InterfaceConversion ''*provider.LitellmClient'')"

text \<open>
  What a handler leaves behind when it returns: the diagnostics it returns, the declared
  state, and the HTTP calls it made (method, URL and body handed to \<^verbatim>\<open>NewRequest\<close>, for
  each request passed to \<^verbatim>\<open>Do\<close>), in order.
\<close>

record HttpCall =
  Method :: string
  URL :: string
  Payload :: "string option"

record Outcome =
  diags :: Diagnostics
  state :: ResourceData
  calls :: "HttpCall list"

section \<open>Team membership handlers\<close>

subsection \<open>Payloads\<close>

text \<open>The map \<^verbatim>\<open>jsonPayload\<close> of each handler, after the conditional assignment of the
  budget.\<close>

definition createPayload :: "TeamMembershipData \<Rightarrow> (string \<times> iface) list" where
  "createPayload teamMembershipData =
     (let jsonPayload =
        [(''member'', IMap [(''role'', IString (Role teamMembershipData)),
                            (''user_id'', IString (UserId teamMembershipData))]),
         (''team_id'', IString (TeamId teamMembershipData))]
      in if float64_gt_zero (MaxBudgetInTeam teamMembershipData)
         then jsonPayload @ [(''max_budget_in_team'', IFloat (MaxBudgetInTeam teamMembershipData))]
         else jsonPayload)"

definition updatePayload :: "TeamMembershipData \<Rightarrow> (string \<times> iface) list" where
  "updatePayload teamMembershipData =
     (let jsonPayload =
        [(''user_id'', IString (UserId teamMembershipData)),
         (''role'', IString (Role teamMembershipData)),
         (''team_id'', IString (TeamId teamMembershipData))]
      in if float64_gt_zero (MaxBudgetInTeam teamMembershipData)
         then jsonPayload @ [(''max_budget_in_team'', IFloat (MaxBudgetInTeam teamMembershipData))]
         else jsonPayload)"

definition deletePayload :: "TeamMembershipData \<Rightarrow> (string \<times> iface) list" where
  "deletePayload teamMembershipData =
     [(''user_id'', IString (UserId teamMembershipData)),
      (''team_id'', IString (TeamId teamMembershipData))]"

subsection \<open>Create, Update, Delete\<close>

text \<open>
  Each handler follows its source line by line. The value of every \<^verbatim>\<open>diag.FromErr\<close>
  and \<^verbatim>\<open>diag.Errorf\<close> call is computed and dropped, as in the source, where the call
  is an expression statement; the handler returns \<^verbatim>\<open>diags\<close>, which is never assigned.
  \<^verbatim>\<open>http.DefaultClient.Do\<close> dereferences its request, and \<^verbatim>\<open>defer resp.Body.Close()\<close>
  dereferences the response: each panics on \<^verbatim>\<open>nil\<close>.
\<close>

definition resourceTeamMembershipCreate ::
  "'req Runtime \<Rightarrow> ResourceData \<Rightarrow> 'req meta \<Rightarrow> panic + Outcome" where
  "resourceTeamMembershipCreate rt d m =
     (case assertClient m of
        Inl p \<Rightarrow> Inl p
      | Inr client \<Rightarrow>
     (let diags = [] in
      case getTeamMembershipData d of
        Inl p \<Rightarrow> Inl p
      | Inr teamMembershipData \<Rightarrow>
     (case client of
        None \<Rightarrow> Inl NilPointerDereference
      | Some c \<Rightarrow>
     (let apiUrl = ApiBaseURL c @ ''/team/member_add'';
          jsonPayload = createPayload teamMembershipData;
          (body, err) = json_Marshal rt (IMap jsonPayload);
          dropped = (case err of None \<Rightarrow> [] | Some e \<Rightarrow> diag_FromErr e);
          (req, err) = NewRequest c ''POST'' apiUrl (Some body);
          dropped = (case err of None \<Rightarrow> [] | Some e \<Rightarrow> diag_FromErr e)
      in case req of
           None \<Rightarrow> Inl NilPointerDereference
         | Some r \<Rightarrow>
        (let (resp, err) = Do rt r;
             dropped = (case err of None \<Rightarrow> [] | Some e \<Rightarrow> diag_FromErr e)
         in case resp of
              None \<Rightarrow> Inl NilPointerDereference
            | Some rsp \<Rightarrow>
           (let dropped = (if StatusCode rsp \<noteq> 200 then diag_Errorf (StatusCode rsp) else [])
            in Inr \<lparr>diags = diags, state = d,
                    calls = [\<lparr>Method = ''POST'', URL = apiUrl, Payload = Some body\<rparr>]\<rparr>))))))"

definition resourceTeamMembershipUpdate ::
  "'req Runtime \<Rightarrow> ResourceData \<Rightarrow> 'req meta \<Rightarrow> panic + Outcome" where
  "resourceTeamMembershipUpdate rt d m =
     (case assertClient m of
        Inl p \<Rightarrow> Inl p
      | Inr client \<Rightarrow>
     (let diags = [] in
      case getTeamMembershipData d of
        Inl p \<Rightarrow> Inl p
      | Inr teamMembershipData \<Rightarrow>
     (case client of
        None \<Rightarrow> Inl NilPointerDereference
      | Some c \<Rightarrow>
     (let apiUrl = ApiBaseURL c @ ''/team/member_update'';
          jsonPayload = updatePayload teamMembershipData;
          (body, err) = json_Marshal rt (IMap jsonPayload);
          dropped = (case err of None \<Rightarrow> [] | Some e \<Rightarrow> diag_FromErr e);
          (req, err) = NewRequest c ''POST'' apiUrl (Some body);
          dropped = (case err of None \<Rightarrow> [] | Some e \<Rightarrow> diag_FromErr e)
      in case req of
           None \<Rightarrow> Inl NilPointerDereference
         | Some r \<Rightarrow>
        (let (resp, err) = Do rt r;
             dropped = (case err of None \<Rightarrow> [] | Some e \<Rightarrow> diag_FromErr e)
         in case resp of
              None \<Rightarrow> Inl NilPointerDereference
            | Some rsp \<Rightarrow>
           (let dropped = (if StatusCode rsp \<noteq> 200 then diag_Errorf (StatusCode rsp) else [])
            in Inr \<lparr>diags = diags, state = d,
                    calls = [\<lparr>Method = ''POST'', URL = apiUrl, Payload = Some body\<rparr>]\<rparr>))))))"

definition resourceTeamMembershipDelete ::
  "'req Runtime \<Rightarrow> ResourceData \<Rightarrow> 'req meta \<Rightarrow> panic + Outcome" where
  "resourceTeamMembershipDelete rt d m =
     (case assertClient m of
        Inl p \<Rightarrow> Inl p
      | Inr client \<Rightarrow>
     (let diags = [] in
      case getTeamMembershipData d of
        Inl p \<Rightarrow> Inl p
      | Inr teamMembershipData \<Rightarrow>
     (case client of
        None \<Rightarrow> Inl NilPointerDereference
      | Some c \<Rightarrow>
     (let apiUrl = ApiBaseURL c @ ''/team/member_delete'';
          (jsonPayload, err) = json_Marshal rt (IMap (deletePayload teamMembershipData));
          dropped = (case err of None \<Rightarrow> [] | Some e \<Rightarrow> diag_FromErr e);
          (req, err) = NewRequest c ''POST'' apiUrl (Some jsonPayload);
          dropped = (case err of None \<Rightarrow> [] | Some e \<Rightarrow> diag_FromErr e)
      in case req of
           None \<Rightarrow> Inl NilPointerDereference
         | Some r \<Rightarrow>
        (let (resp, err) = Do rt r;
             dropped = (case err of None \<Rightarrow> [] | Some e \<Rightarrow> diag_FromErr e)
         in case resp of
              None \<Rightarrow> Inl NilPointerDereference
            | Some rsp \<Rightarrow>
           (let dropped = (if StatusCode rsp \<noteq> 200 then diag_Errorf (StatusCode rsp) else [])
            in Inr \<lparr>diags = diags, state = d,
                    calls = [\<lparr>Method = ''POST'', URL = apiUrl, Payload = Some jsonPayload\<rparr>]\<rparr>))))))"

subsection \<open>Read\<close>

text \<open>
  Modelled from the spec: \<^verbatim>\<open>litellm.MemberWithRole\<close> is declared in a package that is not
  among the sources read here. The spec gives the entries of \<^verbatim>\<open>members_with_roles\<close> the
  fields \<^verbatim>\<open>user_id\<close>, \<^verbatim>\<open>role\<close> and \<^verbatim>\<open>user_email\<close>; the handler reads \<^verbatim>\<open>UserId\<close>,
  \<^verbatim>\<open>Role\<close> and \<^verbatim>\<open>UserEmail\<close>.
\<close>

record MemberWithRole =
  MemberUserId :: string
  MemberRole :: string
  UserEmail :: string

text \<open>
  The loop over \<^verbatim>\<open>membersWithRoles\<close>: \<open>Some\<close> of the state written at the first entry
  whose \<^verbatim>\<open>UserId\<close> is the declared one (where the source returns \<^verbatim>\<open>nil\<close>), \<open>None\<close>
  when the loop runs to its end.
\<close>

fun scanMembers ::
  "TeamMembershipData \<Rightarrow> MemberWithRole list \<Rightarrow> ResourceData \<Rightarrow> ResourceData option" where
  "scanMembers teamMembershipData [] d = None"
| "scanMembers teamMembershipData (teamMembership # rest) d =
     (if MemberUserId teamMembership = UserId teamMembershipData
      then Some (Set (Set d ''role'' (IString (MemberRole teamMembership)))
                   ''user_email'' (IString (UserEmail teamMembership)))
      else scanMembers teamMembershipData rest d)"

text \<open>
  \<^verbatim>\<open>membersWithRoles\<close> is declared \<^verbatim>\<open>nil\<close> and handed to \<^verbatim>\<open>json.Unmarshal\<close> by value
  (the source has no \<^verbatim>\<open>&\<close>), so the loop runs over what that call leaves in it.
\<close>

definition resourceTeamMembershipRead ::
  "'req Runtime \<Rightarrow> ResourceData \<Rightarrow> 'req meta \<Rightarrow> panic + Outcome" where
  "resourceTeamMembershipRead rt d m =
     (case assertClient m of
        Inl p \<Rightarrow> Inl p
      | Inr client \<Rightarrow>
     (let diags = [] in
      case getTeamMembershipData d of
        Inl p \<Rightarrow> Inl p
      | Inr teamMembershipData \<Rightarrow>
     (case client of
        None \<Rightarrow> Inl NilPointerDereference
      | Some c \<Rightarrow>
     (let apiUrl = ApiBaseURL c @ ''/team/info?team_id='' @ TeamId teamMembershipData;
          (req, err) = NewRequest c ''GET'' apiUrl None;
          dropped = (case err of None \<Rightarrow> [] | Some e \<Rightarrow> diag_FromErr e)
      in case req of
           None \<Rightarrow> Inl NilPointerDereference
         | Some r \<Rightarrow>
        (let (resp, err) = Do rt r;
             dropped = (case err of None \<Rightarrow> [] | Some e \<Rightarrow> diag_FromErr e)
         in case resp of
              None \<Rightarrow> Inl NilPointerDereference
            | Some rsp \<Rightarrow>
           (let (respJsonBody, err) = Decode_map (Body rsp);
                dropped = (case err of None \<Rightarrow> [] | Some e \<Rightarrow> diag_FromErr e);
                (jsonTeamMembership, err) =
                   json_Marshal rt (index_map respJsonBody ''members_with_roles'');
                dropped = (case err of None \<Rightarrow> [] | Some e \<Rightarrow> diag_FromErr e);
                membersWithRoles = [];
                (membersWithRoles, err) =
                   json_Unmarshal_by_value jsonTeamMembership membersWithRoles;
                dropped = (case err of None \<Rightarrow> [] | Some e \<Rightarrow> diag_FromErr e);
                sent = [\<lparr>Method = ''GET'', URL = apiUrl, Payload = None\<rparr>]
            in case scanMembers teamMembershipData membersWithRoles d of
                 Some d' \<Rightarrow> Inr \<lparr>diags = [], state = d', calls = sent\<rparr>
               | None \<Rightarrow> Inr \<lparr>diags = diags, state = d, calls = sent\<rparr>))))))"

section \<open>User handlers\<close>

text \<open>
  The four functions of the user resource. Each declares \<^verbatim>\<open>diags\<close>, asserts that the
  handle is a \<^verbatim>\<open>*LitellmClient\<close> and returns \<^verbatim>\<open>diags\<close>. (\<^verbatim>\<open>resourceUser()\<close> itself
  registers \<^verbatim>\<open>resourceModelCreate\<close> and its three siblings, which belong to another
  resource and are not among the sources read here.)
\<close>

definition resourceUserCreate :: "ResourceData \<Rightarrow> 'req meta \<Rightarrow> panic + Outcome" where
  "resourceUserCreate d m =
     (let diags = [] in
      case assertClient m of
        Inl p \<Rightarrow> Inl p
      | Inr client \<Rightarrow> Inr \<lparr>diags = diags, state = d, calls = []\<rparr>)"

definition resourceUserDelete :: "ResourceData \<Rightarrow> 'req meta \<Rightarrow> panic + Outcome" where
  "resourceUserDelete d m =
     (let diags = [] in
      case assertClient m of
        Inl p \<Rightarrow> Inl p
      | Inr client \<Rightarrow> Inr \<lparr>diags = diags, state = d, calls = []\<rparr>)"

definition resourceUserRead :: "ResourceData \<Rightarrow> 'req meta \<Rightarrow> panic + Outcome" where
  "resourceUserRead d m =
     (let diags = [] in
      case assertClient m of
        Inl p \<Rightarrow> Inl p
      | Inr client \<Rightarrow> Inr \<lparr>diags = diags, state = d, calls = []\<rparr>)"

definition resourceUserUpdate :: "ResourceData \<Rightarrow> 'req meta \<Rightarrow> panic + Outcome" where
  "resourceUserUpdate d m =
     (let diags = [] in
      case assertClient m of
        Inl p \<Rightarrow> Inl p
      | Inr client \<Rightarrow> Inr \<lparr>diags = diags, state = d, calls = []\<rparr>)"

section \<open>Role validation\<close>

text \<open>
  Modelled from the spec: the package \<^verbatim>\<open>litellm\<close> (\<^verbatim>\<open>ValidateRole\<close>, \<^verbatim>\<open>ROLE_LIST\<close>,
  \<^verbatim>\<open>PROXY_ADMIN\<close>, \<^verbatim>\<open>PROXY_ADMIN_VIEWER\<close>) is not among the sources read here. The
  spec has the validator determine whether a candidate string belongs to the closed set
  of permitted role names, two of which are the reserved values \<^verbatim>\<open>proxy_admin\<close> and
  \<^verbatim>\<open>proxy_admin_viewer\<close>. The permitted list is a parameter; \<open>ValidateRole\<close> returns
  the role and \<open>True\<close> for a member of the list, the empty role and \<open>False\<close> otherwise.
\<close>

definition PROXY_ADMIN :: string where
  "PROXY_ADMIN = ''proxy_admin''"

definition PROXY_ADMIN_VIEWER :: string where
  "PROXY_ADMIN_VIEWER = ''proxy_admin_viewer''"

definition ValidateRole :: "string list \<Rightarrow> string \<Rightarrow> string \<times> bool" where
  "ValidateRole ROLE_LIST value =
     (if value \<in> set ROLE_LIST then (value, True) else ([], False))"

text \<open>
  The \<^verbatim>\<open>ValidateFunc\<close> of the field \<^verbatim>\<open>role\<close> in \<^verbatim>\<open>SchemaTeamMembership\<close>: the
  warnings and the errors it returns. Both checks run, in this order.
\<close>

definition role_ValidateFunc ::
  "string list \<Rightarrow> iface \<Rightarrow> string \<Rightarrow> panic + string list \<times> error list" where
  "role_ValidateFunc ROLE_LIST val key =
     (case assertString val of
        Inl p \<Rightarrow> Inl p
      | Inr value \<Rightarrow>
     (let warns = [];
          errs = [];
          (role, isValidated) = ValidateRole ROLE_LIST value;
          errs = (if \<not> isValidated
                  then errs @ [ErrorString (''Provided role should be in this list '' @ fmt_v ROLE_LIST)]
                  else errs);
          errs = (if role = PROXY_ADMIN \<or> role = PROXY_ADMIN_VIEWER
                  then errs @ [ErrorString
                    ''proxy_admin and proxy_admin_viewer cannot be set to associate a team with an user'']
                  else errs)
      in Inr (warns, errs)))"

section \<open>The entries a response carries\<close>

text \<open>
  Modelled from the spec: the array \<^verbatim>\<open>members_with_roles\<close> of a response, each entry read
  as a \<^verbatim>\<open>MemberWithRole\<close> by the field names the spec gives (\<^verbatim>\<open>user_id\<close>, \<^verbatim>\<open>role\<close>,
  \<^verbatim>\<open>user_email\<close>); a field that is missing is the empty string. This is what the remote
  system sent, used to state what a Read is given; the handler computes its own list.
\<close>

definition string_field :: "(string \<times> iface) list \<Rightarrow> string \<Rightarrow> string" where
  "string_field kvs key = (case map_of kvs key of Some (IString s) \<Rightarrow> s | _ \<Rightarrow> [])"

fun decodeMember :: "iface \<Rightarrow> MemberWithRole" where
  "decodeMember (IMap kvs) =
     \<lparr>MemberUserId = string_field kvs ''user_id'',
      MemberRole = string_field kvs ''role'',
      UserEmail = string_field kvs ''user_email''\<rparr>"
| "decodeMember v = \<lparr>MemberUserId = [], MemberRole = [], UserEmail = []\<rparr>"

definition response_members :: "Response \<Rightarrow> MemberWithRole list" where
  "response_members rsp =
     (case index_map (fst (Decode_map (Body rsp))) ''members_with_roles'' of
        ISlice xs \<Rightarrow> map decodeMember xs
      | _ \<Rightarrow> [])"

section \<open>Concrete inputs\<close>

text \<open>
  Inputs at which the theorems below are evaluated: a declared state holding the four
  fields the handlers read, a runtime whose network gives one fixed answer and whose
  string encoder puts its argument between double quotes, a client that builds every
  request, a client that builds none, and the response of the spec's Read example.
\<close>

definition quoted :: "string \<Rightarrow> string" where
  "quoted s = CHR 0x22 # s @ [CHR 0x22]"

definition declared :: "string \<Rightarrow> string \<Rightarrow> string \<Rightarrow> iface \<Rightarrow> ResourceData" where
  "declared userId role teamId budget =
     \<lparr>store = (\<lambda>k. INil)(''user_id'' := IString userId, ''role'' := IString role,
               ''team_id'' := IString teamId, ''max_budget_in_team'' := budget)\<rparr>"

definition test_runtime :: "Response option \<times> error option \<Rightarrow> unit Runtime" where
  "test_runtime answer =
     \<lparr>encodeString = quoted,
      encodeFloat = (\<lambda>q. if q = 25 / 2 then ''12.5'' else ''0''),
      Do = (\<lambda>r. answer)\<rparr>"

definition test_client :: "unit LitellmClient" where
  "test_client =
     \<lparr>ApiBaseURL = ''http://localhost:4000'',
      NewRequest = (\<lambda>method url body. (Some (), None))\<rparr>"

definition failing_client :: "unit LitellmClient" where
  "failing_client =
     \<lparr>ApiBaseURL = ''http://localhost:4000'',
      NewRequest = (\<lambda>method url body. (None, Some (ErrorString ''invalid URL'')))\<rparr>"

definition example_response :: Response where
  "example_response =
     \<lparr>StatusCode = 200,
      Body = Some (IMap [(''members_with_roles'',
        ISlice [IMap [(''user_id'', IString ''u1''), (''role'', IString ''member''),
                      (''user_email'', IString ''a@x.com'')],
                IMap [(''user_id'', IString ''u2''), (''role'', IString ''admin'')]])])\<rparr>"

section \<open>Facts about the handlers\<close>

subsection \<open>Extraction\<close>

lemma getTeamMembershipData_Inr_iff:
  "(\<exists>tm. getTeamMembershipData d = Inr tm) \<longleftrightarrow>
     isString (Get d ''user_id'') \<and> isString (Get d ''role'') \<and>
     isString (Get d ''team_id'') \<and> isFloat64 (Get d ''max_budget_in_team'')"
  unfolding getTeamMembershipData_def
  by (cases "Get d ''user_id''"; cases "Get d ''role''"; cases "Get d ''team_id''";
      cases "Get d ''max_budget_in_team''"; simp)

lemma getTeamMembershipData_float64_panic:
  "isString (Get d ''user_id'') \<Longrightarrow> isString (Get d ''role'') \<Longrightarrow>
   isString (Get d ''team_id'') \<Longrightarrow> \<not> isFloat64 (Get d ''max_budget_in_team'') \<Longrightarrow>
   getTeamMembershipData d = Inl (InterfaceConversion ''float64'')"
  unfolding getTeamMembershipData_def
  by (cases "Get d ''user_id''"; cases "Get d ''role''"; cases "Get d ''team_id''";
      cases "Get d ''max_budget_in_team''"; simp)

lemma getTeamMembershipData_declared:
  "getTeamMembershipData (declared u r t (IFloat f)) =
     Inr \<lparr>UserId = u, Role = r, TeamId = t, MaxBudgetInTeam = f\<rparr>"
  by (simp add: getTeamMembershipData_def declared_def Get_def)

lemma declared_Get [simp]:
  "Get (declared u r t b) ''user_id'' = IString u"
  "Get (declared u r t b) ''role'' = IString r"
  "Get (declared u r t b) ''team_id'' = IString t"
  "Get (declared u r t b) ''max_budget_in_team'' = b"
  by (simp_all add: declared_def Get_def)

lemma extraction_panic_create:
  "isl (getTeamMembershipData d) \<Longrightarrow> isl (resourceTeamMembershipCreate rt d m)"
  unfolding resourceTeamMembershipCreate_def
  by (cases "getTeamMembershipData d") (simp_all split: sum.splits)

lemma extraction_panic_read:
  "isl (getTeamMembershipData d) \<Longrightarrow> isl (resourceTeamMembershipRead rt d m)"
  unfolding resourceTeamMembershipRead_def
  by (cases "getTeamMembershipData d") (simp_all split: sum.splits)

lemma extraction_panic_update:
  "isl (getTeamMembershipData d) \<Longrightarrow> isl (resourceTeamMembershipUpdate rt d m)"
  unfolding resourceTeamMembershipUpdate_def
  by (cases "getTeamMembershipData d") (simp_all split: sum.splits)

lemma extraction_panic_delete:
  "isl (getTeamMembershipData d) \<Longrightarrow> isl (resourceTeamMembershipDelete rt d m)"
  unfolding resourceTeamMembershipDelete_def
  by (cases "getTeamMembershipData d") (simp_all split: sum.splits)

subsection \<open>What a handler returns once a response has arrived\<close>

lemma create_returns:
  assumes "getTeamMembershipData d = Inr tm"
    and "NewRequest c ''POST'' (ApiBaseURL c @ ''/team/member_add'')
           (Some (fst (json_Marshal rt (IMap (createPayload tm))))) = (Some r, e1)"
    and "Do rt r = (Some rsp, e2)"
  shows "resourceTeamMembershipCreate rt d (ClientPtr (Some c)) =
           Inr \<lparr>diags = [], state = d,
                calls = [\<lparr>Method = ''POST'', URL = ApiBaseURL c @ ''/team/member_add'',
                          Payload = Some (fst (json_Marshal rt (IMap (createPayload tm))))\<rparr>]\<rparr>"
  using assms unfolding resourceTeamMembershipCreate_def
  by (simp add: Let_def split_beta)

lemma update_returns:
  assumes "getTeamMembershipData d = Inr tm"
    and "NewRequest c ''POST'' (ApiBaseURL c @ ''/team/member_update'')
           (Some (fst (json_Marshal rt (IMap (updatePayload tm))))) = (Some r, e1)"
    and "Do rt r = (Some rsp, e2)"
  shows "resourceTeamMembershipUpdate rt d (ClientPtr (Some c)) =
           Inr \<lparr>diags = [], state = d,
                calls = [\<lparr>Method = ''POST'', URL = ApiBaseURL c @ ''/team/member_update'',
                          Payload = Some (fst (json_Marshal rt (IMap (updatePayload tm))))\<rparr>]\<rparr>"
  using assms unfolding resourceTeamMembershipUpdate_def
  by (simp add: Let_def split_beta)

lemma delete_returns:
  assumes "getTeamMembershipData d = Inr tm"
    and "NewRequest c ''POST'' (ApiBaseURL c @ ''/team/member_delete'')
           (Some (fst (json_Marshal rt (IMap (deletePayload tm))))) = (Some r, e1)"
    and "Do rt r = (Some rsp, e2)"
  shows "resourceTeamMembershipDelete rt d (ClientPtr (Some c)) =
           Inr \<lparr>diags = [], state = d,
                calls = [\<lparr>Method = ''POST'', URL = ApiBaseURL c @ ''/team/member_delete'',
                          Payload = Some (fst (json_Marshal rt (IMap (deletePayload tm))))\<rparr>]\<rparr>"
  using assms unfolding resourceTeamMembershipDelete_def
  by (simp add: Let_def split_beta)

lemma read_returns:
  assumes "getTeamMembershipData d = Inr tm"
    and "NewRequest c ''GET'' (ApiBaseURL c @ ''/team/info?team_id='' @ TeamId tm) None = (Some r, e1)"
    and "Do rt r = (Some rsp, e2)"
  shows "resourceTeamMembershipRead rt d (ClientPtr (Some c)) =
           Inr \<lparr>diags = [], state = d,
                calls = [\<lparr>Method = ''GET'',
                          URL = ApiBaseURL c @ ''/team/info?team_id='' @ TeamId tm,
                          Payload = None\<rparr>]\<rparr>"
  using assms unfolding resourceTeamMembershipRead_def
  by (simp add: Let_def split_beta json_Unmarshal_by_value_def)

text \<open>Whatever the inputs, a handler that returns has no diagnostic to return, and Read
  returns the declared state it was given.\<close>

lemma create_diags_empty:
  "resourceTeamMembershipCreate rt d m = Inr out \<Longrightarrow> diags out = []"
  unfolding resourceTeamMembershipCreate_def
  by (auto simp: Let_def split: sum.splits option.splits prod.splits)

lemma update_diags_empty:
  "resourceTeamMembershipUpdate rt d m = Inr out \<Longrightarrow> diags out = []"
  unfolding resourceTeamMembershipUpdate_def
  by (auto simp: Let_def split: sum.splits option.splits prod.splits)

lemma delete_diags_empty:
  "resourceTeamMembershipDelete rt d m = Inr out \<Longrightarrow> diags out = []"
  unfolding resourceTeamMembershipDelete_def
  by (auto simp: Let_def split: sum.splits option.splits prod.splits)

lemma read_state_unchanged:
  "resourceTeamMembershipRead rt d m = Inr out \<Longrightarrow> diags out = [] \<and> state out = d"
  unfolding resourceTeamMembershipRead_def
  by (auto simp: Let_def json_Unmarshal_by_value_def split: sum.splits option.splits prod.splits)

subsection \<open>The encoded bodies\<close>

lemma key_order:
  "''max_budget_in_team'' \<le> ''member''" "''member'' \<le> ''team_id''"
  "''max_budget_in_team'' \<le> ''team_id''"
  "\<not> ''user_id'' \<le> ''role''" "''role'' \<le> ''team_id''" "\<not> ''user_id'' \<le> ''team_id''"
  "''role'' \<le> ''user_id''" "''team_id'' \<le> ''user_id''"
  "''max_budget_in_team'' \<le> ''role''" "''max_budget_in_team'' \<le> ''user_id''"
  by simp_all

lemma create_body_without_budget:
  "\<not> float64_gt_zero (MaxBudgetInTeam tm) \<Longrightarrow>
   json_Marshal rt (IMap (createPayload tm)) =
     (''{'' @ encodeString rt ''member'' @ '':{'' @
        encodeString rt ''role'' @ '':'' @ encodeString rt (Role tm) @ '','' @
        encodeString rt ''user_id'' @ '':'' @ encodeString rt (UserId tm) @ ''},'' @
      encodeString rt ''team_id'' @ '':'' @ encodeString rt (TeamId tm) @ ''}'', None)"
  by (simp add: json_Marshal_def createPayload_def)

lemma create_body_with_budget:
  "MaxBudgetInTeam tm = Finite q \<Longrightarrow> 0 < q \<Longrightarrow>
   json_Marshal rt (IMap (createPayload tm)) =
     (''{'' @ encodeString rt ''max_budget_in_team'' @ '':'' @ encodeFloat rt q @ '','' @
      encodeString rt ''member'' @ '':{'' @
        encodeString rt ''role'' @ '':'' @ encodeString rt (Role tm) @ '','' @
        encodeString rt ''user_id'' @ '':'' @ encodeString rt (UserId tm) @ ''},'' @
      encodeString rt ''team_id'' @ '':'' @ encodeString rt (TeamId tm) @ ''}'', None)"
  by (simp add: json_Marshal_def createPayload_def)

lemma update_body_without_budget:
  "\<not> float64_gt_zero (MaxBudgetInTeam tm) \<Longrightarrow>
   json_Marshal rt (IMap (updatePayload tm)) =
     (''{'' @ encodeString rt ''role'' @ '':'' @ encodeString rt (Role tm) @ '','' @
      encodeString rt ''team_id'' @ '':'' @ encodeString rt (TeamId tm) @ '','' @
      encodeString rt ''user_id'' @ '':'' @ encodeString rt (UserId tm) @ ''}'', None)"
  by (simp add: json_Marshal_def updatePayload_def)

lemma update_body_with_budget:
  "MaxBudgetInTeam tm = Finite q \<Longrightarrow> 0 < q \<Longrightarrow>
   json_Marshal rt (IMap (updatePayload tm)) =
     (''{'' @ encodeString rt ''max_budget_in_team'' @ '':'' @ encodeFloat rt q @ '','' @
      encodeString rt ''role'' @ '':'' @ encodeString rt (Role tm) @ '','' @
      encodeString rt ''team_id'' @ '':'' @ encodeString rt (TeamId tm) @ '','' @
      encodeString rt ''user_id'' @ '':'' @ encodeString rt (UserId tm) @ ''}'', None)"
  by (simp add: json_Marshal_def updatePayload_def)

text \<open>The encoder depends on the runtime through its two scalar encoders only.\<close>

lemma json_encode_cong_runtime:
  "encodeString rt1 = encodeString rt2 \<Longrightarrow> encodeFloat rt1 = encodeFloat rt2 \<Longrightarrow>
   json_encode rt1 v = json_encode rt2 v"
proof (induction rt1 v rule: json_encode.induct)
  case (5 rt xs)
  then have eq: "map (json_encode rt) xs = map (json_encode rt2) xs"
    by simp
  show ?case by (simp add: eq)
next
  case (6 rt kvs)
  then have eq: "map (\<lambda>(k, v). (k, json_encode rt v)) kvs =
                 map (\<lambda>(k, v). (k, json_encode rt2 v)) kvs"
    by (auto simp: split_beta)
  show ?case using 6(2) by (simp add: eq)
qed (simp_all split: float64.splits)

lemma json_Marshal_cong_runtime:
  "encodeString rt1 = encodeString rt2 \<Longrightarrow> encodeFloat rt1 = encodeFloat rt2 \<Longrightarrow>
   json_Marshal rt1 v = json_Marshal rt2 v"
  by (simp add: json_Marshal_def json_encode_cong_runtime [of rt1 rt2 v])

text \<open>
  A Go map has no order of its own. The encoder sorts the entries by key, so the encoding
  of a map does not depend on the order in which the association list holds them.
\<close>

lemma sort_key_distinct_keys_unique:
  assumes "distinct (map f xs)" and "distinct (map f ys)" and "set xs = set ys"
  shows "sort_key f xs = sort_key f ys"
proof -
  have inj: "inj_on f (set xs)"
    using assms(1) by (simp add: distinct_map)
  have dx: "distinct (map f (sort_key f xs))"
    using assms(1) by (simp add: distinct_map)
  have dy: "distinct (map f (sort_key f ys))"
    using assms(2) by (simp add: distinct_map)
  have "set (map f (sort_key f xs)) = set (map f (sort_key f ys))"
    using assms(3) by simp
  then have keys: "map f (sort_key f xs) = map f (sort_key f ys)"
    using dx dy by (intro sorted_distinct_set_unique) simp_all
  have "inj_on f (set (sort_key f xs) \<union> set (sort_key f ys))"
    using inj assms(3) by simp
  then show ?thesis
    using keys by (simp add: inj_on_map_eq_map)
qed

lemma json_encode_map_order:
  assumes "distinct (map fst kvs)" and "distinct (map fst kvs')" and "set kvs = set kvs'"
  shows "json_encode rt (IMap kvs) = json_encode rt (IMap kvs')"
proof -
  let ?f = "\<lambda>(k, v). (k, json_encode rt v)"
  have "map fst (map ?f kvs) = map fst kvs" and "map fst (map ?f kvs') = map fst kvs'"
    by (simp_all add: split_beta)
  then have d: "distinct (map fst (map ?f kvs))" and d': "distinct (map fst (map ?f kvs'))"
    using assms(1,2) by (simp_all only:)
  have "set (map ?f kvs) = set (map ?f kvs')"
    using assms(3) by simp
  with d d' have "sort_key fst (map ?f kvs) = sort_key fst (map ?f kvs')"
    by (rule sort_key_distinct_keys_unique)
  then show ?thesis
    by simp
qed

lemma fst_not_None: "fst x \<noteq> None \<Longrightarrow> \<exists>r e. x = (Some r, e)"
  by (cases x) auto

lemma create_sends:
  assumes "getTeamMembershipData d = Inr tm"
    and "\<forall>method url body. fst (NewRequest c method url body) \<noteq> None"
    and "\<forall>r. fst (Do rt r) \<noteq> None"
  shows "map_sum id (map Payload \<circ> calls) (resourceTeamMembershipCreate rt d (ClientPtr (Some c))) =
           Inr [Some (fst (json_Marshal rt (IMap (createPayload tm))))]"
proof -
  have "fst (NewRequest c ''POST'' (ApiBaseURL c @ ''/team/member_add'')
            (Some (fst (json_Marshal rt (IMap (createPayload tm)))))) \<noteq> None"
    by (rule assms(2) [rule_format])
  from fst_not_None [OF this] obtain r e1 where
    new: "NewRequest c ''POST'' (ApiBaseURL c @ ''/team/member_add'')
            (Some (fst (json_Marshal rt (IMap (createPayload tm))))) = (Some r, e1)"
    by blast
  have "fst (Do rt r) \<noteq> None"
    by (rule assms(3) [rule_format])
  from fst_not_None [OF this] obtain rsp e2 where do: "Do rt r = (Some rsp, e2)"
    by blast
  show ?thesis
    by (simp add: create_returns [OF assms(1) new do])
qed

lemma update_sends:
  assumes "getTeamMembershipData d = Inr tm"
    and "\<forall>method url body. fst (NewRequest c method url body) \<noteq> None"
    and "\<forall>r. fst (Do rt r) \<noteq> None"
  shows "map_sum id (map Payload \<circ> calls) (resourceTeamMembershipUpdate rt d (ClientPtr (Some c))) =
           Inr [Some (fst (json_Marshal rt (IMap (updatePayload tm))))]"
proof -
  have "fst (NewRequest c ''POST'' (ApiBaseURL c @ ''/team/member_update'')
            (Some (fst (json_Marshal rt (IMap (updatePayload tm)))))) \<noteq> None"
    by (rule assms(2) [rule_format])
  from fst_not_None [OF this] obtain r e1 where
    new: "NewRequest c ''POST'' (ApiBaseURL c @ ''/team/member_update'')
            (Some (fst (json_Marshal rt (IMap (updatePayload tm))))) = (Some r, e1)"
    by blast
  have "fst (Do rt r) \<noteq> None"
    by (rule assms(3) [rule_format])
  from fst_not_None [OF this] obtain rsp e2 where do: "Do rt r = (Some rsp, e2)"
    by blast
  show ?thesis
    by (simp add: update_returns [OF assms(1) new do])
qed

subsection \<open>The example response, and the text of a list\<close>

lemma example_members:
  "response_members example_response =
     [\<lparr>MemberUserId = ''u1'', MemberRole = ''member'', UserEmail = ''a@x.com''\<rparr>,
      \<lparr>MemberUserId = ''u2'', MemberRole = ''admin'', UserEmail = []\<rparr>]"
  by (simp add: response_members_def example_response_def index_map_def string_field_def)

lemma sublist_between: "sublist r ys \<Longrightarrow> sublist r (a @ ys @ b)"
proof -
  assume "sublist r ys"
  then obtain ps ss where "ys = ps @ r @ ss"
    by (auto simp: sublist_def)
  then have "a @ ys @ b = (a @ ps) @ r @ (ss @ b)"
    by simp
  then show ?thesis
    unfolding sublist_def by blast
qed

lemma sublist_join: "r \<in> set xs \<Longrightarrow> sublist r (join sep xs)"
proof (induction sep xs rule: join.induct)
  case (3 sep x y ys)
  show ?case
  proof (cases "r = x")
    case True
    then show ?thesis by simp
  next
    case False
    with 3 have "sublist r (join sep (y # ys))" by simp
    then have "sublist r ((x @ sep) @ join sep (y # ys) @ [])" by (rule sublist_between)
    then show ?thesis by simp
  qed
qed simp_all

lemma sublist_fmt_v: "r \<in> set xs \<Longrightarrow> sublist r (pre @ fmt_v xs)"
proof -
  assume "r \<in> set xs"
  then have "sublist r (join '' '' xs)" by (rule sublist_join)
  then have "sublist r ((pre @ ''['') @ join '' '' xs @ '']'')" by (rule sublist_between)
  then show ?thesis by (simp add: fmt_v_def)
qed

section \<open>The claims\<close>

text \<open>
  C1. The spec: a 200 response yields no error and no diagnostics; any other status yields
  a terminal diagnostic that carries the status code. The first half holds for every
  response (\<open>create_returns\<close>, \<open>update_returns\<close>, \<open>delete_returns\<close>). The second half
  fails: evaluated on a 403 response, Create, Update and Delete each return the empty
  list of diagnostics. The handlers do compute \<^verbatim>\<open>diag.Errorf(..., 403)\<close> (its value is the
  last conjunct) but as an expression statement; they return \<^verbatim>\<open>diags\<close>, which is never
  assigned.
\<close>

theorem non200_status_returns_no_diagnostic:
  "map_sum id diags (resourceTeamMembershipCreate
      (test_runtime (Some \<lparr>StatusCode = 403, Body = None\<rparr>, None))
      (declared ''u1'' ''member'' ''t1'' (IFloat (Finite 0)))
      (ClientPtr (Some test_client))) = Inr [] \<and>
   map_sum id diags (resourceTeamMembershipUpdate
      (test_runtime (Some \<lparr>StatusCode = 403, Body = None\<rparr>, None))
      (declared ''u1'' ''member'' ''t1'' (IFloat (Finite 0)))
      (ClientPtr (Some test_client))) = Inr [] \<and>
   map_sum id diags (resourceTeamMembershipDelete
      (test_runtime (Some \<lparr>StatusCode = 403, Body = None\<rparr>, None))
      (declared ''u1'' ''member'' ''t1'' (IFloat (Finite 0)))
      (ClientPtr (Some test_client))) = Inr [] \<and>
   diag_Errorf 403 =
     [\<lparr>Severity = Error,
       Summary = ''API request to create team membership has failed with status code 403''\<rparr>]"
proof (intro conjI)
  let ?rt = "test_runtime (Some \<lparr>StatusCode = 403, Body = None\<rparr>, None)"
  let ?d = "declared ''u1'' ''member'' ''t1'' (IFloat (Finite 0))"
  have new: "\<And>m u b. NewRequest test_client m u b = (Some (), None)"
    by (simp add: test_client_def)
  have do: "Do ?rt () = (Some \<lparr>StatusCode = 403, Body = None\<rparr>, None)"
    by (simp add: test_runtime_def)
  show "map_sum id diags (resourceTeamMembershipCreate ?rt ?d (ClientPtr (Some test_client))) = Inr []"
    by (simp add: create_returns [OF getTeamMembershipData_declared new do])
  show "map_sum id diags (resourceTeamMembershipUpdate ?rt ?d (ClientPtr (Some test_client))) = Inr []"
    by (simp add: update_returns [OF getTeamMembershipData_declared new do])
  show "map_sum id diags (resourceTeamMembershipDelete ?rt ?d (ClientPtr (Some test_client))) = Inr []"
    by (simp add: delete_returns [OF getTeamMembershipData_declared new do])
  show "diag_Errorf 403 =
     [\<lparr>Severity = Error,
       Summary = ''API request to create team membership has failed with status code 403''\<rparr>]"
    by (simp add: diag_Errorf_def fmt_d_def)
qed

text \<open>
  C2. The spec: given the response
  \<^verbatim>\<open>[{user_id:"u1",role:"member",user_email:"a@x.com"},{user_id:"u2",role:"admin"}]\<close> and
  the declared user \<^verbatim>\<open>u2\<close>, Read writes back the role \<^verbatim>\<open>admin\<close>. Evaluated on exactly
  that response, with the declared role \<^verbatim>\<open>member\<close>, Read returns the declared state it
  was given: the role in it is still \<^verbatim>\<open>member\<close>. The loop itself does what the spec says (run
  on the two entries of the response it writes \<^verbatim>\<open>admin\<close>, last conjunct), but the list it
  runs over is the \<^verbatim>\<open>nil\<close> slice that \<^verbatim>\<open>json.Unmarshal\<close> was given by value.
\<close>

theorem read_never_writes_back:
  "response_members example_response =
     [\<lparr>MemberUserId = ''u1'', MemberRole = ''member'', UserEmail = ''a@x.com''\<rparr>,
      \<lparr>MemberUserId = ''u2'', MemberRole = ''admin'', UserEmail = []\<rparr>] \<and>
   map_sum id state (resourceTeamMembershipRead
      (test_runtime (Some example_response, None))
      (declared ''u2'' ''member'' ''t1'' (IFloat (Finite 0)))
      (ClientPtr (Some test_client))) = Inr (declared ''u2'' ''member'' ''t1'' (IFloat (Finite 0))) \<and>
   map_sum id (\<lambda>out. Get (state out) ''role'') (resourceTeamMembershipRead
      (test_runtime (Some example_response, None))
      (declared ''u2'' ''member'' ''t1'' (IFloat (Finite 0)))
      (ClientPtr (Some test_client))) = Inr (IString ''member'') \<and>
   map_option (\<lambda>d. Get d ''role'')
     (scanMembers \<lparr>UserId = ''u2'', Role = ''member'', TeamId = ''t1'', MaxBudgetInTeam = Finite 0\<rparr>
        (response_members example_response)
        (declared ''u2'' ''member'' ''t1'' (IFloat (Finite 0)))) = Some (IString ''admin'')"
proof (intro conjI)
  let ?d = "declared ''u2'' ''member'' ''t1'' (IFloat (Finite 0))"
  have new: "\<And>m u b. NewRequest test_client m u b = (Some (), None)"
    by (simp add: test_client_def)
  have do: "\<And>a. Do (test_runtime a) () = a"
    by (simp add: test_runtime_def)
  show "response_members example_response =
     [\<lparr>MemberUserId = ''u1'', MemberRole = ''member'', UserEmail = ''a@x.com''\<rparr>,
      \<lparr>MemberUserId = ''u2'', MemberRole = ''admin'', UserEmail = []\<rparr>]"
    by (rule example_members)
  show "map_sum id state (resourceTeamMembershipRead (test_runtime (Some example_response, None))
          ?d (ClientPtr (Some test_client))) = Inr ?d"
    by (simp add: read_returns [OF getTeamMembershipData_declared new do])
  show "map_sum id (\<lambda>out. Get (state out) ''role'')
          (resourceTeamMembershipRead (test_runtime (Some example_response, None))
             ?d (ClientPtr (Some test_client))) = Inr (IString ''member'')"
    by (simp add: read_returns [OF getTeamMembershipData_declared new do])
  show "map_option (\<lambda>d. Get d ''role'')
     (scanMembers \<lparr>UserId = ''u2'', Role = ''member'', TeamId = ''t1'', MaxBudgetInTeam = Finite 0\<rparr>
        (response_members example_response) ?d) = Some (IString ''admin'')"
    by (simp add: example_members Set_def Get_def)
qed

text \<open>
  C3. When a Read has been given a response (the handle is a client, the declared fields
  have the types the extraction asserts, the request was built and \<^verbatim>\<open>Do\<close> returned a
  response) and no entry of \<^verbatim>\<open>members_with_roles\<close> has the declared user id, Read
  returns no diagnostic and the declared state unchanged, after one GET. (The conclusion
  does not depend on the entries: see C2.)
\<close>

theorem read_without_match_leaves_state:
  assumes "getTeamMembershipData d = Inr tm"
    and "NewRequest c ''GET'' (ApiBaseURL c @ ''/team/info?team_id='' @ TeamId tm) None = (Some r, e1)"
    and "Do rt r = (Some rsp, e2)"
    and "\<forall>x \<in> set (response_members rsp). MemberUserId x \<noteq> UserId tm"
  shows "resourceTeamMembershipRead rt d (ClientPtr (Some c)) =
           Inr \<lparr>diags = [], state = d,
                calls = [\<lparr>Method = ''GET'',
                          URL = ApiBaseURL c @ ''/team/info?team_id='' @ TeamId tm,
                          Payload = None\<rparr>]\<rparr>"
  using assms(1-3) by (rule read_returns)

text \<open>Witness: the spec's example response and the declared user \<^verbatim>\<open>u3\<close>, who is not in
  it.\<close>

theorem read_without_match_witness:
  "''u3'' \<notin> set (map MemberUserId (response_members example_response)) \<and>
   resourceTeamMembershipRead (test_runtime (Some example_response, None))
      (declared ''u3'' ''member'' ''t1'' (IFloat (Finite 0))) (ClientPtr (Some test_client)) =
     Inr \<lparr>diags = [], state = declared ''u3'' ''member'' ''t1'' (IFloat (Finite 0)),
          calls = [\<lparr>Method = ''GET'', URL = ''http://localhost:4000/team/info?team_id=t1'',
                    Payload = None\<rparr>]\<rparr>"
proof -
  have new: "NewRequest test_client ''GET''
      (ApiBaseURL test_client @ ''/team/info?team_id='' @
         TeamId \<lparr>UserId = ''u3'', Role = ''member'', TeamId = ''t1'', MaxBudgetInTeam = Finite 0\<rparr>)
      None = (Some (), None)"
    by (simp add: test_client_def)
  have do: "Do (test_runtime (Some example_response, None)) () = (Some example_response, None)"
    by (simp add: test_runtime_def)
  have nomatch: "\<forall>x \<in> set (response_members example_response).
      MemberUserId x \<noteq>
        UserId \<lparr>UserId = ''u3'', Role = ''member'', TeamId = ''t1'', MaxBudgetInTeam = Finite 0\<rparr>"
    by (simp add: example_members)
  show ?thesis
    using read_without_match_leaves_state [OF getTeamMembershipData_declared new do nomatch]
    by (simp add: test_client_def example_members)
qed

text \<open>
  C4. For a Create or an Update that reaches the network (declared fields of the asserted
  types, a client that builds its request, a network that answers): the map
  \<^verbatim>\<open>jsonPayload\<close> holds \<^verbatim>\<open>max_budget_in_team\<close>, with the declared value, whenever that
  value is \<^verbatim>\<open>> 0.0\<close>; with the value 0 the map has no such key and the body sent is the
  object without it; with a finite value \<open>q > 0\<close> the body sent is the object with
  \<^verbatim>\<open>"max_budget_in_team":q\<close> as its first member. Bodies are given byte for byte in
  terms of the runtime's two scalar encoders.
\<close>

theorem budget_field_of_create_and_update:
  assumes "getTeamMembershipData d = Inr tm"
    and "\<forall>method url body. fst (NewRequest c method url body) \<noteq> None"
    and "\<forall>r. fst (Do rt r) \<noteq> None"
  shows
    "(float64_gt_zero (MaxBudgetInTeam tm) \<longrightarrow>
        map_of (createPayload tm) ''max_budget_in_team'' = Some (IFloat (MaxBudgetInTeam tm)) \<and>
        map_of (updatePayload tm) ''max_budget_in_team'' = Some (IFloat (MaxBudgetInTeam tm))) \<and>
     (MaxBudgetInTeam tm = Finite 0 \<longrightarrow>
        map_of (createPayload tm) ''max_budget_in_team'' = None \<and>
        map_of (updatePayload tm) ''max_budget_in_team'' = None \<and>
        map_sum id (map Payload \<circ> calls)
            (resourceTeamMembershipCreate rt d (ClientPtr (Some c))) =
          Inr [Some (''{'' @ encodeString rt ''member'' @ '':{'' @
                 encodeString rt ''role'' @ '':'' @ encodeString rt (Role tm) @ '','' @
                 encodeString rt ''user_id'' @ '':'' @ encodeString rt (UserId tm) @ ''},'' @
               encodeString rt ''team_id'' @ '':'' @ encodeString rt (TeamId tm) @ ''}'')] \<and>
        map_sum id (map Payload \<circ> calls)
            (resourceTeamMembershipUpdate rt d (ClientPtr (Some c))) =
          Inr [Some (''{'' @ encodeString rt ''role'' @ '':'' @ encodeString rt (Role tm) @ '','' @
               encodeString rt ''team_id'' @ '':'' @ encodeString rt (TeamId tm) @ '','' @
               encodeString rt ''user_id'' @ '':'' @ encodeString rt (UserId tm) @ ''}'')]) \<and>
     (MaxBudgetInTeam tm = Finite q \<and> 0 < q \<longrightarrow>
        map_sum id (map Payload \<circ> calls)
            (resourceTeamMembershipCreate rt d (ClientPtr (Some c))) =
          Inr [Some (''{'' @ encodeString rt ''max_budget_in_team'' @ '':'' @ encodeFloat rt q @ '','' @
               encodeString rt ''member'' @ '':{'' @
                 encodeString rt ''role'' @ '':'' @ encodeString rt (Role tm) @ '','' @
                 encodeString rt ''user_id'' @ '':'' @ encodeString rt (UserId tm) @ ''},'' @
               encodeString rt ''team_id'' @ '':'' @ encodeString rt (TeamId tm) @ ''}'')] \<and>
        map_sum id (map Payload \<circ> calls)
            (resourceTeamMembershipUpdate rt d (ClientPtr (Some c))) =
          Inr [Some (''{'' @ encodeString rt ''max_budget_in_team'' @ '':'' @ encodeFloat rt q @ '','' @
               encodeString rt ''role'' @ '':'' @ encodeString rt (Role tm) @ '','' @
               encodeString rt ''team_id'' @ '':'' @ encodeString rt (TeamId tm) @ '','' @
               encodeString rt ''user_id'' @ '':'' @ encodeString rt (UserId tm) @ ''}'')])"
proof (intro conjI impI)
  assume gt: "float64_gt_zero (MaxBudgetInTeam tm)"
  show "map_of (createPayload tm) ''max_budget_in_team'' = Some (IFloat (MaxBudgetInTeam tm))"
    using gt by (simp add: createPayload_def)
  show "map_of (updatePayload tm) ''max_budget_in_team'' = Some (IFloat (MaxBudgetInTeam tm))"
    using gt by (simp add: updatePayload_def)
next
  assume zero: "MaxBudgetInTeam tm = Finite 0"
  then have no: "\<not> float64_gt_zero (MaxBudgetInTeam tm)"
    by simp
  show "map_of (createPayload tm) ''max_budget_in_team'' = None"
    using no by (simp add: createPayload_def)
  show "map_of (updatePayload tm) ''max_budget_in_team'' = None"
    using no by (simp add: updatePayload_def)
  show "map_sum id (map Payload \<circ> calls)
            (resourceTeamMembershipCreate rt d (ClientPtr (Some c))) =
          Inr [Some (''{'' @ encodeString rt ''member'' @ '':{'' @
                 encodeString rt ''role'' @ '':'' @ encodeString rt (Role tm) @ '','' @
                 encodeString rt ''user_id'' @ '':'' @ encodeString rt (UserId tm) @ ''},'' @
               encodeString rt ''team_id'' @ '':'' @ encodeString rt (TeamId tm) @ ''}'')]"
    by (simp add: create_sends [OF assms] create_body_without_budget [OF no])
  show "map_sum id (map Payload \<circ> calls)
            (resourceTeamMembershipUpdate rt d (ClientPtr (Some c))) =
          Inr [Some (''{'' @ encodeString rt ''role'' @ '':'' @ encodeString rt (Role tm) @ '','' @
               encodeString rt ''team_id'' @ '':'' @ encodeString rt (TeamId tm) @ '','' @
               encodeString rt ''user_id'' @ '':'' @ encodeString rt (UserId tm) @ ''}'')]"
    by (simp add: update_sends [OF assms] update_body_without_budget [OF no])
next
  assume "MaxBudgetInTeam tm = Finite q \<and> 0 < q"
  then have fin: "MaxBudgetInTeam tm = Finite q" and pos: "0 < q"
    by simp_all
  show "map_sum id (map Payload \<circ> calls)
            (resourceTeamMembershipCreate rt d (ClientPtr (Some c))) =
          Inr [Some (''{'' @ encodeString rt ''max_budget_in_team'' @ '':'' @ encodeFloat rt q @ '','' @
               encodeString rt ''member'' @ '':{'' @
                 encodeString rt ''role'' @ '':'' @ encodeString rt (Role tm) @ '','' @
                 encodeString rt ''user_id'' @ '':'' @ encodeString rt (UserId tm) @ ''},'' @
               encodeString rt ''team_id'' @ '':'' @ encodeString rt (TeamId tm) @ ''}'')]"
    by (simp add: create_sends [OF assms] create_body_with_budget [OF fin pos])
  show "map_sum id (map Payload \<circ> calls)
            (resourceTeamMembershipUpdate rt d (ClientPtr (Some c))) =
          Inr [Some (''{'' @ encodeString rt ''max_budget_in_team'' @ '':'' @ encodeFloat rt q @ '','' @
               encodeString rt ''role'' @ '':'' @ encodeString rt (Role tm) @ '','' @
               encodeString rt ''team_id'' @ '':'' @ encodeString rt (TeamId tm) @ '','' @
               encodeString rt ''user_id'' @ '':'' @ encodeString rt (UserId tm) @ ''}'')]"
    by (simp add: update_sends [OF assms] update_body_with_budget [OF fin pos])
qed

text \<open>Witness: Create with the budget 12.5 and Update with the budget 0.\<close>

theorem budget_field_witness:
  "map_sum id (map Payload \<circ> calls)
      (resourceTeamMembershipCreate (test_runtime (Some \<lparr>StatusCode = 200, Body = None\<rparr>, None))
         (declared ''u1'' ''member'' ''t1'' (IFloat (Finite (25 / 2))))
         (ClientPtr (Some test_client))) =
     Inr [Some (''{'' @ quoted ''max_budget_in_team'' @ '':12.5,'' @ quoted ''member'' @ '':{'' @
            quoted ''role'' @ '':'' @ quoted ''member'' @ '','' @
            quoted ''user_id'' @ '':'' @ quoted ''u1'' @ ''},'' @
            quoted ''team_id'' @ '':'' @ quoted ''t1'' @ ''}'')] \<and>
   map_sum id (map Payload \<circ> calls)
      (resourceTeamMembershipUpdate (test_runtime (Some \<lparr>StatusCode = 200, Body = None\<rparr>, None))
         (declared ''u1'' ''member'' ''t1'' (IFloat (Finite 0)))
         (ClientPtr (Some test_client))) =
     Inr [Some (''{'' @ quoted ''role'' @ '':'' @ quoted ''member'' @ '','' @
            quoted ''team_id'' @ '':'' @ quoted ''t1'' @ '','' @
            quoted ''user_id'' @ '':'' @ quoted ''u1'' @ ''}'')]"
proof -
  let ?rt = "test_runtime (Some \<lparr>StatusCode = 200, Body = None\<rparr>, None)"
  have new: "\<forall>method url body. fst (NewRequest test_client method url body) \<noteq> None"
    by (simp add: test_client_def)
  have do: "\<forall>r. fst (Do ?rt r) \<noteq> None"
    by (simp add: test_runtime_def)
  have enc: "encodeString ?rt = quoted" "encodeFloat ?rt (25 / 2) = ''12.5''"
    by (simp_all add: test_runtime_def)
  have g1: "getTeamMembershipData (declared ''u1'' ''member'' ''t1'' (IFloat (Finite (25 / 2)))) =
      Inr \<lparr>UserId = ''u1'', Role = ''member'', TeamId = ''t1'', MaxBudgetInTeam = Finite (25 / 2)\<rparr>"
    by (rule getTeamMembershipData_declared)
  have g0: "getTeamMembershipData (declared ''u1'' ''member'' ''t1'' (IFloat (Finite 0))) =
      Inr \<lparr>UserId = ''u1'', Role = ''member'', TeamId = ''t1'', MaxBudgetInTeam = Finite 0\<rparr>"
    by (rule getTeamMembershipData_declared)
  show ?thesis
    using budget_field_of_create_and_update [where q = "25 / 2", OF g1 new do]
          budget_field_of_create_and_update [where q = 1, OF g0 new do]
    by (simp add: enc)
qed

text \<open>
  C5. Modelled from the spec (\<open>ValidateRole\<close>). For every string that is not in the
  permitted list, the validator returns exactly one error, whose message is
  \<^verbatim>\<open>Provided role should be in this list\<close> followed by the \<^verbatim>\<open>%v\<close> text of the permitted
  list; every permitted role occurs in that message.
\<close>

theorem role_outside_list_is_rejected:
  assumes "value \<notin> set ROLE_LIST"
  shows "role_ValidateFunc ROLE_LIST (IString value) key =
           Inr ([], [ErrorString (''Provided role should be in this list '' @ fmt_v ROLE_LIST)]) \<and>
         (\<forall>r \<in> set ROLE_LIST.
            sublist r (''Provided role should be in this list '' @ fmt_v ROLE_LIST))"
proof
  show "role_ValidateFunc ROLE_LIST (IString value) key =
           Inr ([], [ErrorString (''Provided role should be in this list '' @ fmt_v ROLE_LIST)])"
    using assms
    by (simp add: role_ValidateFunc_def ValidateRole_def PROXY_ADMIN_def PROXY_ADMIN_VIEWER_def)
  show "\<forall>r \<in> set ROLE_LIST.
            sublist r (''Provided role should be in this list '' @ fmt_v ROLE_LIST)"
    by (blast intro: sublist_fmt_v)
qed

text \<open>Witness: the role \<^verbatim>\<open>owner\<close> against a list of three roles.\<close>

theorem role_outside_list_witness:
  "role_ValidateFunc [''proxy_admin'', ''proxy_admin_viewer'', ''internal_user''] (IString ''owner'') ''role'' =
     Inr ([], [ErrorString
       ''Provided role should be in this list [proxy_admin proxy_admin_viewer internal_user]'']) \<and>
   sublist ''internal_user''
     ''Provided role should be in this list [proxy_admin proxy_admin_viewer internal_user]''"
proof -
  have out: "''owner'' \<notin> set [''proxy_admin'', ''proxy_admin_viewer'', ''internal_user'']"
    by simp
  show ?thesis
    using role_outside_list_is_rejected [OF out, of "''role''"]
    by (simp add: fmt_v_def)
qed

text \<open>
  C6. Modelled from the spec (\<open>ValidateRole\<close>). For each of the two reserved values, when
  it is a recognised role (a member of the permitted list), the validator returns exactly
  one error, the team-scope exclusion, which is not the error of C5.
\<close>

theorem reserved_role_is_excluded:
  assumes "value = PROXY_ADMIN \<or> value = PROXY_ADMIN_VIEWER"
    and "value \<in> set ROLE_LIST"
  shows "role_ValidateFunc ROLE_LIST (IString value) key =
           Inr ([], [ErrorString
             ''proxy_admin and proxy_admin_viewer cannot be set to associate a team with an user'']) \<and>
         ErrorString
             ''proxy_admin and proxy_admin_viewer cannot be set to associate a team with an user'' \<noteq>
         ErrorString (''Provided role should be in this list '' @ fmt_v ROLE_LIST)"
  using assms
  by (auto simp: role_ValidateFunc_def ValidateRole_def)

text \<open>Witness: both reserved values against a list that holds them.\<close>

theorem reserved_role_witness:
  "role_ValidateFunc [''proxy_admin'', ''proxy_admin_viewer'', ''internal_user'']
      (IString ''proxy_admin'') ''role'' =
     Inr ([], [ErrorString
       ''proxy_admin and proxy_admin_viewer cannot be set to associate a team with an user'']) \<and>
   role_ValidateFunc [''proxy_admin'', ''proxy_admin_viewer'', ''internal_user'']
      (IString ''proxy_admin_viewer'') ''role'' =
     Inr ([], [ErrorString
       ''proxy_admin and proxy_admin_viewer cannot be set to associate a team with an user''])"
proof -
  have a: "''proxy_admin'' = PROXY_ADMIN \<or> ''proxy_admin'' = PROXY_ADMIN_VIEWER"
    by (simp add: PROXY_ADMIN_def)
  have b: "''proxy_admin_viewer'' = PROXY_ADMIN \<or> ''proxy_admin_viewer'' = PROXY_ADMIN_VIEWER"
    by (simp add: PROXY_ADMIN_VIEWER_def)
  have ina: "''proxy_admin'' \<in> set [''proxy_admin'', ''proxy_admin_viewer'', ''internal_user'']"
    by simp
  have inb: "''proxy_admin_viewer'' \<in> set [''proxy_admin'', ''proxy_admin_viewer'', ''internal_user'']"
    by simp
  show ?thesis
    using reserved_role_is_excluded [OF a ina, of "''role''"]
          reserved_role_is_excluded [OF b inb, of "''role''"]
    by simp
qed

text \<open>
  C7. The spec: a failure to build or to execute the request is reported to the caller as
  a terminal error. Evaluated where \<^verbatim>\<open>Do\<close> returns no response and the error
  \<^verbatim>\<open>connection refused\<close>, Create and Delete panic on \<^verbatim>\<open>resp.Body\<close> (a nil pointer
  dereference); where \<^verbatim>\<open>NewRequest\<close> returns no request and an error, Create panics inside
  \<^verbatim>\<open>Do\<close>; where \<^verbatim>\<open>Do\<close> returns both a response and an error (the redirect limit),
  Create returns no diagnostic at all. In each case \<^verbatim>\<open>diag.FromErr(err)\<close> is computed and
  dropped, so the error never reaches the caller. (No handler retries: each calls \<^verbatim>\<open>Do\<close>
  at most once.)
\<close>

theorem transport_failure_is_not_reported:
  "resourceTeamMembershipCreate
      (test_runtime (None, Some (ErrorString ''connection refused'')))
      (declared ''u1'' ''member'' ''t1'' (IFloat (Finite 0)))
      (ClientPtr (Some test_client)) = Inl NilPointerDereference \<and>
   resourceTeamMembershipDelete
      (test_runtime (None, Some (ErrorString ''connection refused'')))
      (declared ''u1'' ''member'' ''t1'' (IFloat (Finite 0)))
      (ClientPtr (Some test_client)) = Inl NilPointerDereference \<and>
   resourceTeamMembershipCreate
      (test_runtime (Some \<lparr>StatusCode = 200, Body = None\<rparr>, None))
      (declared ''u1'' ''member'' ''t1'' (IFloat (Finite 0)))
      (ClientPtr (Some failing_client)) = Inl NilPointerDereference \<and>
   map_sum id diags (resourceTeamMembershipCreate
      (test_runtime (Some \<lparr>StatusCode = 307, Body = None\<rparr>,
                     Some (ErrorString ''stopped after 10 redirects'')))
      (declared ''u1'' ''member'' ''t1'' (IFloat (Finite 0)))
      (ClientPtr (Some test_client))) = Inr []"
proof (intro conjI)
  let ?d = "declared ''u1'' ''member'' ''t1'' (IFloat (Finite 0))"
  have new: "\<And>m u b. NewRequest test_client m u b = (Some (), None)"
    by (simp add: test_client_def)
  have bad: "\<And>m u b. NewRequest failing_client m u b = (None, Some (ErrorString ''invalid URL''))"
    by (simp add: failing_client_def)
  have do: "\<And>a. Do (test_runtime a) () = a"
    by (simp add: test_runtime_def)
  show "resourceTeamMembershipCreate (test_runtime (None, Some (ErrorString ''connection refused'')))
          ?d (ClientPtr (Some test_client)) = Inl NilPointerDereference"
    by (simp add: resourceTeamMembershipCreate_def getTeamMembershipData_declared new do
          Let_def split_beta)
  show "resourceTeamMembershipDelete (test_runtime (None, Some (ErrorString ''connection refused'')))
          ?d (ClientPtr (Some test_client)) = Inl NilPointerDereference"
    by (simp add: resourceTeamMembershipDelete_def getTeamMembershipData_declared new do
          Let_def split_beta)
  show "resourceTeamMembershipCreate (test_runtime (Some \<lparr>StatusCode = 200, Body = None\<rparr>, None))
          ?d (ClientPtr (Some failing_client)) = Inl NilPointerDereference"
    by (simp add: resourceTeamMembershipCreate_def getTeamMembershipData_declared bad
          Let_def split_beta)
  show "map_sum id diags (resourceTeamMembershipCreate
          (test_runtime (Some \<lparr>StatusCode = 307, Body = None\<rparr>,
                         Some (ErrorString ''stopped after 10 redirects'')))
          ?d (ClientPtr (Some test_client))) = Inr []"
    by (simp add: create_returns [OF getTeamMembershipData_declared new do])
qed

text \<open>
  C8. Two Updates whose declared inputs extract to the same four fields, run with the same
  JSON encoders but with any two clients that build their requests and any two networks
  that answer 200: both return no diagnostic, each makes exactly one call, and the two
  bodies are equal, byte for byte. (The body is the encoding of \<^verbatim>\<open>jsonPayload\<close>, which by
  \<open>json_encode_map_order\<close> does not depend on the order of the map either.)
\<close>

theorem update_twice_sends_identical_payloads:
  assumes "getTeamMembershipData d1 = Inr tm"
    and "getTeamMembershipData d2 = Inr tm"
    and "encodeString rt1 = encodeString rt2"
    and "encodeFloat rt1 = encodeFloat rt2"
    and "\<forall>method url body. fst (NewRequest c1 method url body) \<noteq> None"
    and "\<forall>method url body. fst (NewRequest c2 method url body) \<noteq> None"
    and "\<forall>r. \<exists>rsp e. Do rt1 r = (Some rsp, e) \<and> StatusCode rsp = 200"
    and "\<forall>r. \<exists>rsp e. Do rt2 r = (Some rsp, e) \<and> StatusCode rsp = 200"
  shows "\<exists>o1 o2.
           resourceTeamMembershipUpdate rt1 d1 (ClientPtr (Some c1)) = Inr o1 \<and>
           resourceTeamMembershipUpdate rt2 d2 (ClientPtr (Some c2)) = Inr o2 \<and>
           diags o1 = [] \<and> diags o2 = [] \<and>
           length (calls o1) = 1 \<and> length (calls o2) = 1 \<and>
           map Payload (calls o1) = map Payload (calls o2) \<and>
           map Payload (calls o1) = [Some (fst (json_Marshal rt1 (IMap (updatePayload tm))))]"
proof -
  have "fst (NewRequest c1 ''POST'' (ApiBaseURL c1 @ ''/team/member_update'')
            (Some (fst (json_Marshal rt1 (IMap (updatePayload tm)))))) \<noteq> None"
    by (rule assms(5) [rule_format])
  from fst_not_None [OF this] obtain r1 e1 where
    new1: "NewRequest c1 ''POST'' (ApiBaseURL c1 @ ''/team/member_update'')
            (Some (fst (json_Marshal rt1 (IMap (updatePayload tm))))) = (Some r1, e1)"
    by blast
  have "fst (NewRequest c2 ''POST'' (ApiBaseURL c2 @ ''/team/member_update'')
            (Some (fst (json_Marshal rt2 (IMap (updatePayload tm)))))) \<noteq> None"
    by (rule assms(6) [rule_format])
  from fst_not_None [OF this] obtain r2 e2 where
    new2: "NewRequest c2 ''POST'' (ApiBaseURL c2 @ ''/team/member_update'')
            (Some (fst (json_Marshal rt2 (IMap (updatePayload tm))))) = (Some r2, e2)"
    by blast
  from assms(7) obtain rsp1 f1 where do1: "Do rt1 r1 = (Some rsp1, f1)"
    by blast
  from assms(8) obtain rsp2 f2 where do2: "Do rt2 r2 = (Some rsp2, f2)"
    by blast
  have same: "json_Marshal rt1 (IMap (updatePayload tm)) = json_Marshal rt2 (IMap (updatePayload tm))"
    using assms(3,4) by (rule json_Marshal_cong_runtime)
  show ?thesis
    by (simp add: update_returns [OF assms(1) new1 do1] update_returns [OF assms(2) new2 do2] same)
qed

text \<open>Witness: the second invocation differs from the first in a field the handler does
  not read, in the client's base URL and in the body of the 200 response.\<close>

theorem update_twice_witness:
  "map_sum id diags
      (resourceTeamMembershipUpdate (test_runtime (Some \<lparr>StatusCode = 200, Body = None\<rparr>, None))
         (declared ''u1'' ''member'' ''t1'' (IFloat (Finite (25 / 2))))
         (ClientPtr (Some test_client))) = Inr [] \<and>
   map_sum id (map Payload \<circ> calls)
      (resourceTeamMembershipUpdate (test_runtime (Some \<lparr>StatusCode = 200, Body = None\<rparr>, None))
         (declared ''u1'' ''member'' ''t1'' (IFloat (Finite (25 / 2))))
         (ClientPtr (Some test_client))) =
   map_sum id (map Payload \<circ> calls)
      (resourceTeamMembershipUpdate
         (test_runtime (Some \<lparr>StatusCode = 200, Body = Some INil\<rparr>, None))
         ((declared ''u1'' ''member'' ''t1'' (IFloat (Finite (25 / 2))))
            \<lparr>store := (store (declared ''u1'' ''member'' ''t1'' (IFloat (Finite (25 / 2)))))
                        (''user_email'' := IString ''a@x.com'')\<rparr>)
         (ClientPtr (Some (test_client\<lparr>ApiBaseURL := ''https://proxy.example''\<rparr>))))"
proof -
  let ?rt1 = "test_runtime (Some \<lparr>StatusCode = 200, Body = None\<rparr>, None)"
  let ?rt2 = "test_runtime (Some \<lparr>StatusCode = 200, Body = Some INil\<rparr>, None)"
  let ?d1 = "declared ''u1'' ''member'' ''t1'' (IFloat (Finite (25 / 2)))"
  let ?d2 = "?d1\<lparr>store := (store ?d1)(''user_email'' := IString ''a@x.com'')\<rparr>"
  let ?tm = "\<lparr>UserId = ''u1'', Role = ''member'', TeamId = ''t1'', MaxBudgetInTeam = Finite (25 / 2)\<rparr>"
  have g1: "getTeamMembershipData ?d1 = Inr ?tm"
    by (rule getTeamMembershipData_declared)
  have g2: "getTeamMembershipData ?d2 = Inr ?tm"
    by (simp add: getTeamMembershipData_def declared_def Get_def)
  have s: "encodeString ?rt1 = encodeString ?rt2" and f: "encodeFloat ?rt1 = encodeFloat ?rt2"
    by (simp_all add: test_runtime_def)
  have n1: "\<forall>method url body. fst (NewRequest test_client method url body) \<noteq> None"
    by (simp add: test_client_def)
  have n2: "\<forall>method url body.
      fst (NewRequest (test_client\<lparr>ApiBaseURL := ''https://proxy.example''\<rparr>) method url body) \<noteq> None"
    by (simp add: test_client_def)
  have a1: "\<forall>r. \<exists>rsp e. Do ?rt1 r = (Some rsp, e) \<and> StatusCode rsp = 200"
    by (simp add: test_runtime_def)
  have a2: "\<forall>r. \<exists>rsp e. Do ?rt2 r = (Some rsp, e) \<and> StatusCode rsp = 200"
    by (simp add: test_runtime_def)
  from update_twice_sends_identical_payloads [OF g1 g2 s f n1 n2 a1 a2]
  show ?thesis
    by auto
qed

text \<open>
  C9. Each of the four user handlers, given a handle that is a \<^verbatim>\<open>*LitellmClient\<close> (a
  \<^verbatim>\<open>nil\<close> one included), returns no diagnostic, the declared state as it was, and has
  made no HTTP call. (On a handle of any other type the assertion \<^verbatim>\<open>m.(*LitellmClient)\<close>
  panics, as it does in every handler of the provider.)
\<close>

theorem user_handlers_do_nothing:
  "resourceUserCreate d (ClientPtr c) = Inr \<lparr>diags = [], state = d, calls = []\<rparr> \<and>
   resourceUserRead d (ClientPtr c) = Inr \<lparr>diags = [], state = d, calls = []\<rparr> \<and>
   resourceUserUpdate d (ClientPtr c) = Inr \<lparr>diags = [], state = d, calls = []\<rparr> \<and>
   resourceUserDelete d (ClientPtr c) = Inr \<lparr>diags = [], state = d, calls = []\<rparr>"
  by (simp add: resourceUserCreate_def resourceUserRead_def resourceUserUpdate_def
        resourceUserDelete_def)

text \<open>Witness: Create with a client and Delete with a \<^verbatim>\<open>nil\<close> client pointer.\<close>

theorem user_handlers_do_nothing_witness:
  "map_sum id calls (resourceUserCreate (declared ''u1'' ''member'' ''t1'' INil)
      (ClientPtr (Some test_client))) = Inr [] \<and>
   map_sum id diags (resourceUserDelete (declared ''u1'' ''member'' ''t1'' INil)
      (ClientPtr (None :: unit LitellmClient option))) = Inr []"
  using user_handlers_do_nothing [of "declared ''u1'' ''member'' ''t1'' INil" "Some test_client"]
        user_handlers_do_nothing [of "declared ''u1'' ''member'' ''t1'' INil"
           "None :: unit LitellmClient option"]
  by simp

text \<open>
  C10. \<^verbatim>\<open>max_budget_in_team\<close> is not a key of \<^verbatim>\<open>SchemaTeamMembership\<close>. The extraction
  returns exactly when the accessor gives strings for \<^verbatim>\<open>user_id\<close>, \<^verbatim>\<open>role\<close> and
  \<^verbatim>\<open>team_id\<close> and a \<^verbatim>\<open>float64\<close> for \<^verbatim>\<open>max_budget_in_team\<close>; and when the accessor gives
  anything else than a \<^verbatim>\<open>float64\<close> for that key, each of the four team-membership
  handlers panics, whatever the handle and the runtime; with a client handle and the
  three strings in place, the panic is the failed assertion \<^verbatim>\<open>.(float64)\<close> itself.
\<close>

theorem extraction_needs_float64_for_undeclared_key:
  "map_of SchemaTeamMembership ''max_budget_in_team'' = None \<and>
   ((\<exists>tm. getTeamMembershipData d = Inr tm) \<longleftrightarrow>
      isString (Get d ''user_id'') \<and> isString (Get d ''role'') \<and>
      isString (Get d ''team_id'') \<and> isFloat64 (Get d ''max_budget_in_team'')) \<and>
   (\<not> isFloat64 (Get d ''max_budget_in_team'') \<longrightarrow>
      isl (resourceTeamMembershipCreate rt d m) \<and>
      isl (resourceTeamMembershipRead rt d m) \<and>
      isl (resourceTeamMembershipUpdate rt d m) \<and>
      isl (resourceTeamMembershipDelete rt d m)) \<and>
   (isString (Get d ''user_id'') \<and> isString (Get d ''role'') \<and>
    isString (Get d ''team_id'') \<and> \<not> isFloat64 (Get d ''max_budget_in_team'') \<longrightarrow>
      resourceTeamMembershipCreate rt d (ClientPtr c) = Inl (InterfaceConversion ''float64'') \<and>
      resourceTeamMembershipRead rt d (ClientPtr c) = Inl (InterfaceConversion ''float64'') \<and>
      resourceTeamMembershipUpdate rt d (ClientPtr c) = Inl (InterfaceConversion ''float64'') \<and>
      resourceTeamMembershipDelete rt d (ClientPtr c) = Inl (InterfaceConversion ''float64''))"
proof (intro conjI impI)
  show "map_of SchemaTeamMembership ''max_budget_in_team'' = None"
    by (simp add: SchemaTeamMembership_def)
  show "(\<exists>tm. getTeamMembershipData d = Inr tm) \<longleftrightarrow>
      isString (Get d ''user_id'') \<and> isString (Get d ''role'') \<and>
      isString (Get d ''team_id'') \<and> isFloat64 (Get d ''max_budget_in_team'')"
    by (rule getTeamMembershipData_Inr_iff)
next
  assume "\<not> isFloat64 (Get d ''max_budget_in_team'')"
  then have "\<not> (\<exists>tm. getTeamMembershipData d = Inr tm)"
    by (simp add: getTeamMembershipData_Inr_iff)
  then have p: "isl (getTeamMembershipData d)"
    by (cases "getTeamMembershipData d") simp_all
  show "isl (resourceTeamMembershipCreate rt d m)" using p by (rule extraction_panic_create)
  show "isl (resourceTeamMembershipRead rt d m)" using p by (rule extraction_panic_read)
  show "isl (resourceTeamMembershipUpdate rt d m)" using p by (rule extraction_panic_update)
  show "isl (resourceTeamMembershipDelete rt d m)" using p by (rule extraction_panic_delete)
next
  assume "isString (Get d ''user_id'') \<and> isString (Get d ''role'') \<and>
    isString (Get d ''team_id'') \<and> \<not> isFloat64 (Get d ''max_budget_in_team'')"
  then have p: "getTeamMembershipData d = Inl (InterfaceConversion ''float64'')"
    by (simp add: getTeamMembershipData_float64_panic)
  show "resourceTeamMembershipCreate rt d (ClientPtr c) = Inl (InterfaceConversion ''float64'')"
    by (simp add: resourceTeamMembershipCreate_def p)
  show "resourceTeamMembershipRead rt d (ClientPtr c) = Inl (InterfaceConversion ''float64'')"
    by (simp add: resourceTeamMembershipRead_def p)
  show "resourceTeamMembershipUpdate rt d (ClientPtr c) = Inl (InterfaceConversion ''float64'')"
    by (simp add: resourceTeamMembershipUpdate_def p)
  show "resourceTeamMembershipDelete rt d (ClientPtr c) = Inl (InterfaceConversion ''float64'')"
    by (simp add: resourceTeamMembershipDelete_def p)
qed

text \<open>Witness: a declared state with a \<^verbatim>\<open>float64\<close> budget, where the extraction returns,
  and one where the accessor gives \<^verbatim>\<open>nil\<close> for the key, where all four handlers panic.\<close>

theorem extraction_needs_float64_witness:
  "(\<exists>tm. getTeamMembershipData (declared ''u1'' ''member'' ''t1'' (IFloat (Finite 0))) = Inr tm) \<and>
   resourceTeamMembershipCreate (test_runtime (Some \<lparr>StatusCode = 200, Body = None\<rparr>, None))
      (declared ''u1'' ''member'' ''t1'' INil) (ClientPtr (Some test_client)) =
     Inl (InterfaceConversion ''float64'') \<and>
   resourceTeamMembershipRead (test_runtime (Some \<lparr>StatusCode = 200, Body = None\<rparr>, None))
      (declared ''u1'' ''member'' ''t1'' INil) (ClientPtr (Some test_client)) =
     Inl (InterfaceConversion ''float64'') \<and>
   resourceTeamMembershipUpdate (test_runtime (Some \<lparr>StatusCode = 200, Body = None\<rparr>, None))
      (declared ''u1'' ''member'' ''t1'' INil) (ClientPtr (Some test_client)) =
     Inl (InterfaceConversion ''float64'') \<and>
   resourceTeamMembershipDelete (test_runtime (Some \<lparr>StatusCode = 200, Body = None\<rparr>, None))
      (declared ''u1'' ''member'' ''t1'' INil) (ClientPtr (Some test_client)) =
     Inl (InterfaceConversion ''float64'')"
  using extraction_needs_float64_for_undeclared_key
          [of "declared ''u1'' ''member'' ''t1'' (IFloat (Finite 0))"]
        extraction_needs_float64_for_undeclared_key
          [of "declared ''u1'' ''member'' ''t1'' INil"
              "test_runtime (Some \<lparr>StatusCode = 200, Body = None\<rparr>, None)"
              "ClientPtr (Some test_client)" "Some test_client"]
  by simp

end
